theory Spec2Isabelle
  imports Complex_Main "HOL-Library.Char_ord" "HOL-Library.List_Lexorder"
begin

section \<open>Python values used by the queue manager\<close>

text \<open>
  The queue manager of \<^verbatim>\<open>scalable-queue-arcitecture.py\<close> keeps every job in a Redis
  hash whose values are strings, so the conversions \<^verbatim>\<open>str(v)\<close> and \<^verbatim>\<open>int(s)\<close> of
  Python are part of the program. Integers are Python's unbounded integers (\<open>int\<close>);
  strings are byte lists, and the functions below are exact on ASCII text.
\<close>

datatype py_exception =
    ResponseError string
  | KeyError string
  | ValueError string
  | TypeError string
  | Exception string

definition is_digit :: "char \<Rightarrow> bool" where
  "is_digit c = (c \<in> set ''0123456789'')"

definition digit_val :: "char \<Rightarrow> nat" where
  "digit_val c =
     (case map_of (zip ''0123456789'' [0, 1, 2, 3, 4, 5, 6, 7, 8, 9]) c of
        None \<Rightarrow> 0 | Some d \<Rightarrow> d)"

definition digit_char :: "nat \<Rightarrow> char" where
  "digit_char d = ''0123456789'' ! d"

text \<open>\<^verbatim>\<open>str.upper()\<close> on the ASCII letters.\<close>

definition upper_char :: "char \<Rightarrow> char" where
  "upper_char c =
     (case map_of (zip ''abcdefghijklmnopqrstuvwxyz'' ''ABCDEFGHIJKLMNOPQRSTUVWXYZ'') c of
        None \<Rightarrow> c | Some u \<Rightarrow> u)"

definition upper :: "string \<Rightarrow> string" where
  "upper s = map upper_char s"

text \<open>\<^verbatim>\<open>str(n)\<close> for an integer: the decimal digits, with a minus sign when negative.\<close>

fun dec :: "nat \<Rightarrow> string" where
  "dec n = (if n < 10 then [digit_char n] else dec (n div 10) @ [digit_char (n mod 10)])"

declare dec.simps [simp del]

definition py_str_int :: "int \<Rightarrow> string" where
  "py_str_int n = (if n < 0 then CHR ''-'' # dec (nat (- n)) else dec (nat n))"

text \<open>
  \<^verbatim>\<open>int(s)\<close> for a string: surrounding whitespace is stripped, a sign is optional, and
  the digits may be separated by single underscores. \<open>None\<close> stands for ValueError.
\<close>

definition is_space :: "char \<Rightarrow> bool" where
  "is_space c = (c \<in> {CHR '' '', CHR 0x09, CHR 0x0A, CHR 0x0B, CHR 0x0C, CHR 0x0D,
                       CHR 0x1C, CHR 0x1D, CHR 0x1E, CHR 0x1F})"

definition strip :: "string \<Rightarrow> string" where
  "strip s = rev (dropWhile is_space (rev (dropWhile is_space s)))"

fun digits_rest :: "nat \<Rightarrow> string \<Rightarrow> nat option" where
  "digits_rest acc [] = Some acc"
| "digits_rest acc (c # cs) =
     (if is_digit c then digits_rest (acc * 10 + digit_val c) cs
      else if c = CHR ''_'' then
        (case cs of [] \<Rightarrow> None
         | d # ds \<Rightarrow> if is_digit d then digits_rest (acc * 10 + digit_val d) ds else None)
      else None)"

definition py_digits :: "string \<Rightarrow> nat option" where
  "py_digits s = (case s of [] \<Rightarrow> None
                  | c # cs \<Rightarrow> if is_digit c then digits_rest (digit_val c) cs else None)"

definition py_int :: "string \<Rightarrow> int option" where
  "py_int s = (case strip s of [] \<Rightarrow> None
     | c # cs \<Rightarrow>
        if c = CHR ''-'' then map_option (\<lambda>n. - int n) (py_digits cs)
        else if c = CHR ''+'' then map_option int (py_digits cs)
        else map_option int (py_digits (c # cs)))"

text \<open>\<^verbatim>\<open>str(v)\<close> for the optional fields of a job: \<^verbatim>\<open>str(None)\<close> is the text \<^verbatim>\<open>None\<close>.\<close>

definition str_opt_str :: "string option \<Rightarrow> string" where
  "str_opt_str v = (case v of None \<Rightarrow> ''None'' | Some x \<Rightarrow> x)"

definition str_opt_int :: "int option \<Rightarrow> string" where
  "str_opt_int v = (case v of None \<Rightarrow> ''None'' | Some n \<Rightarrow> py_str_int n)"

text \<open>
  The \<^verbatim>\<open>datetime\<close> and \<^verbatim>\<open>json\<close> modules are libraries outside the repository. The
  model takes them as a record of functions over a type \<open>'dt\<close> of instants and a type
  \<open>'js\<close> of schema documents; \<open>None\<close> stands for the exception the library raises
  (ValueError for \<^verbatim>\<open>fromisoformat\<close> and \<^verbatim>\<open>json.loads\<close>, TypeError for \<^verbatim>\<open>json.dumps\<close>).
\<close>

record ('dt, 'js) pylib =
  isoformat :: "'dt \<Rightarrow> string"
  fromisoformat :: "string \<Rightarrow> 'dt option"
  str_datetime :: "'dt \<Rightarrow> string"
  strftime_ym :: "'dt \<Rightarrow> string"
  add_minutes :: "'dt \<Rightarrow> real \<Rightarrow> 'dt"
  json_dumps :: "'js \<Rightarrow> string option"
  json_loads :: "string \<Rightarrow> 'js option"

definition str_opt_datetime :: "('dt, 'js) pylib \<Rightarrow> 'dt option \<Rightarrow> string" where
  "str_opt_datetime L v = (case v of None \<Rightarrow> ''None'' | Some d \<Rightarrow> str_datetime L d)"

section \<open>The Redis store\<close>

text \<open>
  A Redis database maps a key to a value of one type; a command of another type on that
  key fails with WRONGTYPE, and a key whose list or sorted set becomes empty is removed.
  A sorted set is kept as the list of its (member, score) pairs, one per member; Redis
  orders it by score and, between equal scores, by the bytes of the member. The store also
  records the time-to-live given to a key and the sequence of the writing commands it
  executed, oldest first. The passing of time (expiry of a key) is not modelled.
\<close>

datatype rvalue =
    RString string
  | RList "string list"
  | RZSet "(string \<times> real) list"
  | RHash "string \<Rightarrow> string option"

datatype rcommand =
    ZADD string string real
  | ZREM string string
  | LPUSH string string
  | LREM string string
  | HSET string
  | INCR string
  | EXPIRE string nat
  | SETEX string nat string

record store =
  kv :: "string \<Rightarrow> rvalue option"
  ttl :: "string \<Rightarrow> nat option"
  oplog :: "rcommand list"

definition empty_store :: store where
  "empty_store = \<lparr>kv = Map.empty, ttl = Map.empty, oplog = []\<rparr>"

definition WRONGTYPE :: py_exception where
  "WRONGTYPE = ResponseError ''WRONGTYPE Operation against a key holding the wrong kind of value''"

definition NOT_AN_INTEGER :: py_exception where
  "NOT_AN_INTEGER = ResponseError ''value is not an integer or out of range''"

text \<open>
  An operation on the store returns a value or raises, and in both cases leaves the store
  it has reached: a write made before an exception stays.
\<close>

definition return_val :: "'a \<Rightarrow> store \<Rightarrow> (py_exception + 'a) \<times> store" where
  "return_val x s = (Inr x, s)"

definition raise_exc :: "py_exception \<Rightarrow> store \<Rightarrow> (py_exception + 'a) \<times> store" where
  "raise_exc e s = (Inl e, s)"

definition andthen ::
  "(store \<Rightarrow> (py_exception + 'a) \<times> store) \<Rightarrow>
   ('a \<Rightarrow> store \<Rightarrow> (py_exception + 'b) \<times> store) \<Rightarrow>
   store \<Rightarrow> (py_exception + 'b) \<times> store" where
  "andthen m f s = (case m s of (Inl e, s') \<Rightarrow> (Inl e, s') | (Inr x, s') \<Rightarrow> f x s')"

definition lift_result :: "py_exception + 'a \<Rightarrow> store \<Rightarrow> (py_exception + 'a) \<times> store" where
  "lift_result r s = (r, s)"

definition set_key :: "string \<Rightarrow> rvalue \<Rightarrow> rcommand \<Rightarrow> store \<Rightarrow> store" where
  "set_key k v c s = s\<lparr>kv := (kv s)(k \<mapsto> v), oplog := oplog s @ [c]\<rparr>"

definition del_key :: "string \<Rightarrow> rcommand \<Rightarrow> store \<Rightarrow> store" where
  "del_key k c s = s\<lparr>kv := (kv s)(k := None), ttl := (ttl s)(k := None), oplog := oplog s @ [c]\<rparr>"

definition log_only :: "rcommand \<Rightarrow> store \<Rightarrow> store" where
  "log_only c s = s\<lparr>oplog := oplog s @ [c]\<rparr>"

subsection \<open>Lists\<close>

definition redis_llen :: "string \<Rightarrow> store \<Rightarrow> (py_exception + nat) \<times> store" where
  "redis_llen k s =
     (case kv s k of
        None \<Rightarrow> (Inr 0, s)
      | Some (RList xs) \<Rightarrow> (Inr (length xs), s)
      | Some _ \<Rightarrow> (Inl WRONGTYPE, s))"

definition redis_lpush :: "string \<Rightarrow> string \<Rightarrow> store \<Rightarrow> (py_exception + unit) \<times> store" where
  "redis_lpush k v s =
     (case kv s k of
        None \<Rightarrow> (Inr (), set_key k (RList [v]) (LPUSH k v) s)
      | Some (RList xs) \<Rightarrow> (Inr (), set_key k (RList (v # xs)) (LPUSH k v) s)
      | Some _ \<Rightarrow> (Inl WRONGTYPE, s))"

text \<open>\<^verbatim>\<open>lrem(key, 0, value)\<close>: every occurrence of the value is removed.\<close>

definition redis_lrem :: "string \<Rightarrow> string \<Rightarrow> store \<Rightarrow> (py_exception + unit) \<times> store" where
  "redis_lrem k v s =
     (case kv s k of
        None \<Rightarrow> (Inr (), log_only (LREM k v) s)
      | Some (RList xs) \<Rightarrow>
          (let ys = filter (\<lambda>x. x \<noteq> v) xs
           in if ys = [] then (Inr (), del_key k (LREM k v) s)
              else (Inr (), set_key k (RList ys) (LREM k v) s))
      | Some _ \<Rightarrow> (Inl WRONGTYPE, s))"

subsection \<open>Sorted sets\<close>

definition zlt :: "string \<times> real \<Rightarrow> string \<times> real \<Rightarrow> bool" where
  "zlt a b = (snd a < snd b \<or> (snd a = snd b \<and> fst a < fst b))"

fun zmin :: "(string \<times> real) list \<Rightarrow> (string \<times> real) option" where
  "zmin [] = None"
| "zmin (x # xs) =
     (case zmin xs of None \<Rightarrow> Some x | Some y \<Rightarrow> if zlt y x then Some y else Some x)"

definition redis_zadd :: "string \<Rightarrow> string \<Rightarrow> real \<Rightarrow> store \<Rightarrow> (py_exception + unit) \<times> store" where
  "redis_zadd k m sc s =
     (case kv s k of
        None \<Rightarrow> (Inr (), set_key k (RZSet [(m, sc)]) (ZADD k m sc) s)
      | Some (RZSet zs) \<Rightarrow>
          (Inr (), set_key k (RZSet ((m, sc) # filter (\<lambda>e. fst e \<noteq> m) zs)) (ZADD k m sc) s)
      | Some _ \<Rightarrow> (Inl WRONGTYPE, s))"

definition redis_zcard :: "string \<Rightarrow> store \<Rightarrow> (py_exception + nat) \<times> store" where
  "redis_zcard k s =
     (case kv s k of
        None \<Rightarrow> (Inr 0, s)
      | Some (RZSet zs) \<Rightarrow> (Inr (length zs), s)
      | Some _ \<Rightarrow> (Inl WRONGTYPE, s))"

text \<open>\<^verbatim>\<open>zrange(key, 0, 0, withscores=True)\<close>: the first entry in the order of the set.\<close>

definition redis_zrange_0_0 ::
  "string \<Rightarrow> store \<Rightarrow> (py_exception + (string \<times> real) list) \<times> store" where
  "redis_zrange_0_0 k s =
     (case kv s k of
        None \<Rightarrow> (Inr [], s)
      | Some (RZSet zs) \<Rightarrow> (Inr (case zmin zs of None \<Rightarrow> [] | Some e \<Rightarrow> [e]), s)
      | Some _ \<Rightarrow> (Inl WRONGTYPE, s))"

definition redis_zrem :: "string \<Rightarrow> string \<Rightarrow> store \<Rightarrow> (py_exception + unit) \<times> store" where
  "redis_zrem k m s =
     (case kv s k of
        None \<Rightarrow> (Inr (), log_only (ZREM k m) s)
      | Some (RZSet zs) \<Rightarrow>
          (let ys = filter (\<lambda>e. fst e \<noteq> m) zs
           in if ys = [] then (Inr (), del_key k (ZREM k m) s)
              else (Inr (), set_key k (RZSet ys) (ZREM k m) s))
      | Some _ \<Rightarrow> (Inl WRONGTYPE, s))"

definition redis_zrank :: "string \<Rightarrow> string \<Rightarrow> store \<Rightarrow> (py_exception + nat option) \<times> store" where
  "redis_zrank k m s =
     (case kv s k of
        None \<Rightarrow> (Inr None, s)
      | Some (RZSet zs) \<Rightarrow>
          (case map_of zs m of
             None \<Rightarrow> (Inr None, s)
           | Some sc \<Rightarrow> (Inr (Some (length (filter (\<lambda>e. zlt e (m, sc)) zs))), s))
      | Some _ \<Rightarrow> (Inl WRONGTYPE, s))"

subsection \<open>Hashes\<close>

definition redis_hset ::
  "string \<Rightarrow> (string \<Rightarrow> string option) \<Rightarrow> store \<Rightarrow> (py_exception + unit) \<times> store" where
  "redis_hset k mapping s =
     (case kv s k of
        None \<Rightarrow> (Inr (), set_key k (RHash mapping) (HSET k) s)
      | Some (RHash h) \<Rightarrow> (Inr (), set_key k (RHash (h ++ mapping)) (HSET k) s)
      | Some _ \<Rightarrow> (Inl WRONGTYPE, s))"

definition redis_hgetall ::
  "string \<Rightarrow> store \<Rightarrow> (py_exception + (string \<Rightarrow> string option)) \<times> store" where
  "redis_hgetall k s =
     (case kv s k of
        None \<Rightarrow> (Inr Map.empty, s)
      | Some (RHash h) \<Rightarrow> (Inr h, s)
      | Some _ \<Rightarrow> (Inl WRONGTYPE, s))"

subsection \<open>Strings, counters and time-to-live\<close>

definition redis_get :: "string \<Rightarrow> store \<Rightarrow> (py_exception + string option) \<times> store" where
  "redis_get k s =
     (case kv s k of
        None \<Rightarrow> (Inr None, s)
      | Some (RString v) \<Rightarrow> (Inr (Some v), s)
      | Some _ \<Rightarrow> (Inl WRONGTYPE, s))"

text \<open>
  A counter is a string holding the canonical decimal text of a signed 64-bit integer;
  \<^verbatim>\<open>INCR\<close> fails on any other text and on overflow.
\<close>

definition redis_int :: "string \<Rightarrow> int option" where
  "redis_int v =
     (case py_int v of
        None \<Rightarrow> None
      | Some n \<Rightarrow> if py_str_int n = v \<and> - (2 ^ 63) \<le> n \<and> n < 2 ^ 63 then Some n else None)"

definition redis_incr :: "string \<Rightarrow> store \<Rightarrow> (py_exception + int) \<times> store" where
  "redis_incr k s =
     (case kv s k of
        None \<Rightarrow> (Inr 1, set_key k (RString (py_str_int 1)) (INCR k) s)
      | Some (RString v) \<Rightarrow>
          (case redis_int v of
             None \<Rightarrow> (Inl NOT_AN_INTEGER, s)
           | Some n \<Rightarrow>
               if n + 1 < 2 ^ 63
               then (Inr (n + 1), set_key k (RString (py_str_int (n + 1))) (INCR k) s)
               else (Inl NOT_AN_INTEGER, s))
      | Some _ \<Rightarrow> (Inl WRONGTYPE, s))"

definition redis_expire :: "string \<Rightarrow> nat \<Rightarrow> store \<Rightarrow> (py_exception + bool) \<times> store" where
  "redis_expire k n s =
     (case kv s k of
        None \<Rightarrow> (Inr False, log_only (EXPIRE k n) s)
      | Some _ \<Rightarrow> (Inr True, s\<lparr>ttl := (ttl s)(k \<mapsto> n), oplog := oplog s @ [EXPIRE k n]\<rparr>))"

definition redis_setex :: "string \<Rightarrow> nat \<Rightarrow> string \<Rightarrow> store \<Rightarrow> (py_exception + unit) \<times> store" where
  "redis_setex k n v s =
     (Inr (), s\<lparr>kv := (kv s)(k \<mapsto> RString v), ttl := (ttl s)(k \<mapsto> n),
                oplog := oplog s @ [SETEX k n v]\<rparr>)"

section \<open>Configuration and data model\<close>

definition QUEUE_PENDING :: string where "QUEUE_PENDING = ''projects:pending''"
definition QUEUE_PROCESSING :: string where "QUEUE_PROCESSING = ''projects:processing''"
definition QUEUE_COMPLETED :: string where "QUEUE_COMPLETED = ''projects:completed''"
definition QUEUE_FAILED :: string where "QUEUE_FAILED = ''projects:failed''"

definition MAX_CONCURRENT_JOBS :: nat where "MAX_CONCURRENT_JOBS = 3"
definition MAX_QUEUE_SIZE :: nat where "MAX_QUEUE_SIZE = 1000"
definition JOB_TIMEOUT_SECONDS :: nat where "JOB_TIMEOUT_SECONDS = 3600"
definition POSITION_ESTIMATE_SECONDS :: nat where "POSITION_ESTIMATE_SECONDS = 600"

text \<open>\<^verbatim>\<open>QueueConfig.__dict__["PRIORITY_" + name]\<close>; \<open>None\<close> stands for KeyError.\<close>

definition config_priority :: "string \<Rightarrow> int option" where
  "config_priority name =
     (if name = ''ENTERPRISE'' then Some 0
      else if name = ''PRO'' then Some 1
      else if name = ''INDIE'' then Some 2
      else if name = ''FREE'' then Some 3
      else None)"

datatype JobStatus = QUEUED | PROCESSING | COMPLETED | FAILED | CANCELLED

definition status_value :: "JobStatus \<Rightarrow> string" where
  "status_value st =
     (case st of QUEUED \<Rightarrow> ''queued'' | PROCESSING \<Rightarrow> ''processing''
      | COMPLETED \<Rightarrow> ''completed'' | FAILED \<Rightarrow> ''failed'' | CANCELLED \<Rightarrow> ''cancelled'')"

text \<open>\<^verbatim>\<open>JobStatus(value)\<close>; \<open>None\<close> stands for ValueError.\<close>

definition status_of_value :: "string \<Rightarrow> JobStatus option" where
  "status_of_value v =
     (if v = ''queued'' then Some QUEUED
      else if v = ''processing'' then Some PROCESSING
      else if v = ''completed'' then Some COMPLETED
      else if v = ''failed'' then Some FAILED
      else if v = ''cancelled'' then Some CANCELLED
      else None)"

record tier_limit =
  concurrent :: int
  queue_priority :: int
  monthly_limit :: int

text \<open>\<^verbatim>\<open>TierLimits[name].value\<close>; \<open>None\<close> stands for KeyError.\<close>

definition TierLimits :: "string \<Rightarrow> tier_limit option" where
  "TierLimits name =
     (if name = ''FREE'' then Some \<lparr>concurrent = 1, queue_priority = 3, monthly_limit = 1\<rparr>
      else if name = ''INDIE'' then Some \<lparr>concurrent = 2, queue_priority = 2, monthly_limit = 10\<rparr>
      else if name = ''PRO'' then Some \<lparr>concurrent = 3, queue_priority = 1, monthly_limit = - 1\<rparr>
      else if name = ''ENTERPRISE'' then
        Some \<lparr>concurrent = 5, queue_priority = 0, monthly_limit = - 1\<rparr>
      else None)"

record ('dt, 'js) ProjectJob =
  job_id :: string
  user_id :: string
  tier :: string
  project_schema :: 'js
  status :: JobStatus
  priority :: int
  created_at :: 'dt
  started_at :: "'dt option"
  completed_at :: "'dt option"
  error_message :: "string option"
  result_url :: "string option"
  queue_position :: "int option"
  estimated_start :: "'dt option"
  worker_id :: "string option"

definition job_key :: "string \<Rightarrow> string" where
  "job_key j = ''job:'' @ j"

definition timeout_key :: "string \<Rightarrow> string" where
  "timeout_key j = ''job:'' @ j @ '':timeout''"

definition month_key :: "('dt, 'js) pylib \<Rightarrow> 'dt \<Rightarrow> string \<Rightarrow> string" where
  "month_key L now uid = ''user:'' @ uid @ '':jobs:'' @ strftime_ym L now"

section \<open>The job codec\<close>

text \<open>
  \<^verbatim>\<open>_serialize_job\<close>: the fields of the dataclass, each turned into a string. Only
  \<^verbatim>\<open>json.dumps\<close> can raise.
\<close>

definition serialize_job ::
  "('dt, 'js) pylib \<Rightarrow> ('dt, 'js) ProjectJob \<Rightarrow> py_exception + (string \<Rightarrow> string option)" where
  "serialize_job L job =
     (case json_dumps L (project_schema job) of
        None \<Rightarrow> Inl (TypeError ''Object is not JSON serializable'')
      | Some schema_text \<Rightarrow>
          Inr (map_of
            [(''job_id'', job_id job),
             (''user_id'', user_id job),
             (''tier'', tier job),
             (''project_schema'', schema_text),
             (''status'', status_value (status job)),
             (''priority'', py_str_int (priority job)),
             (''created_at'', isoformat L (created_at job)),
             (''started_at'', case started_at job of None \<Rightarrow> [] | Some d \<Rightarrow> isoformat L d),
             (''completed_at'', case completed_at job of None \<Rightarrow> [] | Some d \<Rightarrow> isoformat L d),
             (''error_message'', str_opt_str (error_message job)),
             (''result_url'', str_opt_str (result_url job)),
             (''queue_position'', str_opt_int (queue_position job)),
             (''estimated_start'', str_opt_datetime L (estimated_start job)),
             (''worker_id'', str_opt_str (worker_id job))]))"

text \<open>\<^verbatim>\<open>data[key]\<close> raises KeyError on a missing key; \<^verbatim>\<open>data.get(key)\<close> returns None.\<close>

definition subscript :: "(string \<Rightarrow> string option) \<Rightarrow> string \<Rightarrow> py_exception + string" where
  "subscript data k = (case data k of None \<Rightarrow> Inl (KeyError k) | Some v \<Rightarrow> Inr v)"

definition or_raise :: "py_exception \<Rightarrow> 'a option \<Rightarrow> py_exception + 'a" where
  "or_raise e v = (case v of None \<Rightarrow> Inl e | Some x \<Rightarrow> Inr x)"

definition bind_result :: "py_exception + 'a \<Rightarrow> ('a \<Rightarrow> py_exception + 'b) \<Rightarrow> py_exception + 'b" where
  "bind_result r f = (case r of Inl e \<Rightarrow> Inl e | Inr x \<Rightarrow> f x)"

text \<open>
  The optional instants: \<^verbatim>\<open>datetime.fromisoformat(data[k]) if data.get(k) else None\<close>;
  a missing key and the empty string both give None.
\<close>

definition optional_datetime ::
  "('dt, 'js) pylib \<Rightarrow> (string \<Rightarrow> string option) \<Rightarrow> string \<Rightarrow> py_exception + 'dt option" where
  "optional_datetime L data k =
     (case data k of
        None \<Rightarrow> Inr None
      | Some v \<Rightarrow>
          if v = [] then Inr None
          else (case fromisoformat L v of
                  None \<Rightarrow> Inl (ValueError ''Invalid isoformat string'')
                | Some d \<Rightarrow> Inr (Some d)))"

text \<open>
  \<^verbatim>\<open>_deserialize_job\<close>: the keyword arguments are evaluated in the order written, so the
  first field that fails decides the exception. \<^verbatim>\<open>queue_position\<close> and
  \<^verbatim>\<open>estimated_start\<close> are not read back and take their default None.
\<close>

definition deserialize_job ::
  "('dt, 'js) pylib \<Rightarrow> (string \<Rightarrow> string option) \<Rightarrow> py_exception + ('dt, 'js) ProjectJob" where
  "deserialize_job L data =
     bind_result (subscript data ''job_id'') (\<lambda>v_job_id.
     bind_result (subscript data ''user_id'') (\<lambda>v_user_id.
     bind_result (subscript data ''tier'') (\<lambda>v_tier.
     bind_result (subscript data ''project_schema'') (\<lambda>schema_text.
     bind_result (or_raise (ValueError ''Expecting value'') (json_loads L schema_text)) (\<lambda>v_schema.
     bind_result (subscript data ''status'') (\<lambda>status_text.
     bind_result (or_raise (ValueError ''not a valid JobStatus'') (status_of_value status_text))
       (\<lambda>v_status.
     bind_result (subscript data ''priority'') (\<lambda>priority_text.
     bind_result (or_raise (ValueError ''invalid literal for int()'') (py_int priority_text))
       (\<lambda>v_priority.
     bind_result (subscript data ''created_at'') (\<lambda>created_text.
     bind_result (or_raise (ValueError ''Invalid isoformat string'') (fromisoformat L created_text))
       (\<lambda>v_created_at.
     bind_result (optional_datetime L data ''started_at'') (\<lambda>v_started_at.
     bind_result (optional_datetime L data ''completed_at'') (\<lambda>v_completed_at.
     Inr \<lparr>job_id = v_job_id, user_id = v_user_id, tier = v_tier, project_schema = v_schema,
          status = v_status, priority = v_priority, created_at = v_created_at,
          started_at = v_started_at, completed_at = v_completed_at,
          error_message = data ''error_message'', result_url = data ''result_url'',
          queue_position = None, estimated_start = None,
          worker_id = data ''worker_id''\<rparr>)))))))))))))"

section \<open>The queue manager\<close>

text \<open>
  \<^verbatim>\<open>_check_user_limit\<close>. The counter is read with \<^verbatim>\<open>int(redis.get(key) or 0)\<close>: a
  missing key and an empty string count as 0.
\<close>

definition check_user_limit ::
  "('dt, 'js) pylib \<Rightarrow> 'dt \<Rightarrow> string \<Rightarrow> string \<Rightarrow> store \<Rightarrow> (py_exception + bool) \<times> store" where
  "check_user_limit L now uid tier_name =
     (case TierLimits (upper tier_name) of
        None \<Rightarrow> raise_exc (KeyError (upper tier_name))
      | Some limits \<Rightarrow>
          if monthly_limit limits = - 1 then return_val True
          else andthen (redis_get (month_key L now uid)) (\<lambda>v.
               andthen (lift_result
                 (case v of
                    None \<Rightarrow> Inr 0
                  | Some text \<Rightarrow>
                      if text = [] then Inr 0
                      else or_raise (ValueError ''invalid literal for int()'') (py_int text)))
               (\<lambda>current_count. return_val (current_count < monthly_limit limits))))"

text \<open>\<^verbatim>\<open>_get_queue_position\<close>: the rank in the pending set, counted from 1; 0 when absent.\<close>

definition get_queue_position :: "string \<Rightarrow> store \<Rightarrow> (py_exception + nat) \<times> store" where
  "get_queue_position j =
     andthen (redis_zrank QUEUE_PENDING j) (\<lambda>rank.
     return_val (case rank of None \<Rightarrow> 0 | Some r \<Rightarrow> r + 1))"

definition estimate_start_time :: "('dt, 'js) pylib \<Rightarrow> 'dt \<Rightarrow> nat \<Rightarrow> 'dt" where
  "estimate_start_time L now position =
     add_minutes L now (real (position * POSITION_ESTIMATE_SECONDS) / 60)"

text \<open>
  The score under which \<^verbatim>\<open>submit_job\<close> files a job: \<^verbatim>\<open>job.priority * 1000000 + time.time()\<close>.
  \<^verbatim>\<open>time.time()\<close> is a float of epoch seconds; it is taken here as a real number.
\<close>

definition job_score :: "int \<Rightarrow> real \<Rightarrow> real" where
  "job_score p t = real_of_int (p * 1000000) + t"

text \<open>
  The clock readings of one call of \<^verbatim>\<open>submit_job\<close>: \<^verbatim>\<open>time.time()\<close> for the score, and
  \<^verbatim>\<open>datetime.now()\<close> in \<^verbatim>\<open>_check_user_limit\<close>, for the month key of the counter and in
  \<^verbatim>\<open>_estimate_start_time\<close>.
\<close>

record 'dt submit_clock =
  time_time :: real
  now_limit :: 'dt
  now_month :: 'dt
  now_estimate :: 'dt

record submit_response =
  r_job_id :: string
  r_status :: string
  r_queue_position :: nat
  r_estimated_start :: string
  r_estimated_wait_minutes :: nat

definition QUEUE_FULL :: py_exception where
  "QUEUE_FULL = Exception ''Queue is full. Please try again later.''"

definition QUOTA_EXCEEDED :: py_exception where
  "QUOTA_EXCEEDED = Exception ''Monthly project limit reached. Please upgrade.''"

definition submit_job ::
  "('dt, 'js) pylib \<Rightarrow> 'dt submit_clock \<Rightarrow> ('dt, 'js) ProjectJob \<Rightarrow>
   store \<Rightarrow> (py_exception + submit_response) \<times> store" where
  "submit_job L clk job =
     andthen (redis_llen QUEUE_PENDING) (\<lambda>queue_size.
     if queue_size \<ge> MAX_QUEUE_SIZE then raise_exc QUEUE_FULL
     else
     andthen (check_user_limit L (now_limit clk) (user_id job) (tier job)) (\<lambda>allowed.
     if \<not> allowed then raise_exc QUOTA_EXCEEDED
     else
     andthen (lift_result (serialize_job L job)) (\<lambda>job_data.
     andthen (redis_zadd QUEUE_PENDING (job_id job) (job_score (priority job) (time_time clk)))
       (\<lambda>_.
     andthen (redis_hset (job_key (job_id job)) job_data) (\<lambda>_.
     andthen (redis_incr (month_key L (now_month clk) (user_id job))) (\<lambda>_.
     andthen (redis_expire (month_key L (now_month clk) (user_id job)) 2592000) (\<lambda>_.
     andthen (get_queue_position (job_id job)) (\<lambda>position.
     return_val
       \<lparr>r_job_id = job_id job, r_status = ''queued'', r_queue_position = position,
        r_estimated_start = isoformat L (estimate_start_time L (now_estimate clk) position),
        r_estimated_wait_minutes = position * 10\<rparr>))))))))"

definition get_next_job ::
  "('dt, 'js) pylib \<Rightarrow> 'dt \<Rightarrow> string \<Rightarrow>
   store \<Rightarrow> (py_exception + ('dt, 'js) ProjectJob option) \<times> store" where
  "get_next_job L now worker =
     andthen (redis_llen QUEUE_PROCESSING) (\<lambda>n_processing.
     if n_processing \<ge> MAX_CONCURRENT_JOBS then return_val None
     else
     andthen (redis_zrange_0_0 QUEUE_PENDING) (\<lambda>jobs.
     case jobs of
       [] \<Rightarrow> return_val None
     | (j, score) # _ \<Rightarrow>
         andthen (redis_zrem QUEUE_PENDING j) (\<lambda>_.
         andthen (redis_lpush QUEUE_PROCESSING j) (\<lambda>_.
         andthen (redis_hgetall (job_key j)) (\<lambda>job_data.
         andthen (lift_result (deserialize_job L job_data)) (\<lambda>job0.
         let job = job0\<lparr>status := PROCESSING, started_at := Some now, worker_id := Some worker\<rparr>
         in
         andthen (lift_result (serialize_job L job)) (\<lambda>new_data.
         andthen (redis_hset (job_key j) new_data) (\<lambda>_.
         andthen (redis_setex (timeout_key j) JOB_TIMEOUT_SECONDS ''1'') (\<lambda>_.
         return_val (Some job))))))))))"



subsection \<open>Statistics\<close>

definition get_completed_today :: "store \<Rightarrow> (py_exception + nat) \<times> store" where
  "get_completed_today = redis_llen QUEUE_COMPLETED"

definition get_failed_today :: "store \<Rightarrow> (py_exception + nat) \<times> store" where
  "get_failed_today = redis_llen QUEUE_FAILED"

definition estimate_wait_time :: "store \<Rightarrow> (py_exception + nat) \<times> store" where
  "estimate_wait_time =
     andthen (redis_zcard QUEUE_PENDING) (\<lambda>n_pending.
     return_val ((n_pending div MAX_CONCURRENT_JOBS) * 10))"

text \<open>\<^verbatim>\<open>_get_avg_processing_time\<close> returns the constant 12.5.\<close>

definition get_avg_processing_time :: real where
  "get_avg_processing_time = 12.5"

record queue_stats =
  pending :: nat
  processing :: nat
  completed_today :: nat
  failed_today :: nat
  avg_processing_time_minutes :: real
  estimated_wait_minutes :: nat

definition get_queue_stats :: "store \<Rightarrow> (py_exception + queue_stats) \<times> store" where
  "get_queue_stats =
     andthen (redis_zcard QUEUE_PENDING) (\<lambda>v_pending.
     andthen (redis_llen QUEUE_PROCESSING) (\<lambda>v_processing.
     andthen get_completed_today (\<lambda>v_completed.
     andthen get_failed_today (\<lambda>v_failed.
     andthen estimate_wait_time (\<lambda>v_wait.
     return_val
       \<lparr>pending = v_pending, processing = v_processing, completed_today = v_completed,
        failed_today = v_failed, avg_processing_time_minutes = get_avg_processing_time,
        estimated_wait_minutes = v_wait\<rparr>)))))"

subsection \<open>Job creation by the API handler\<close>

text \<open>
  \<^verbatim>\<open>create_project\<close> builds the job it submits: the identifier is a fresh UUID (a
  parameter here), the priority comes from the tier, and every optional field is None.
\<close>

definition new_job ::
  "string \<Rightarrow> string \<Rightarrow> string \<Rightarrow> 'js \<Rightarrow> 'dt \<Rightarrow> py_exception + ('dt, 'js) ProjectJob" where
  "new_job uuid uid tier_name schema now =
     (case config_priority (upper tier_name) of
        None \<Rightarrow> Inl (KeyError (''PRIORITY_'' @ upper tier_name))
      | Some p \<Rightarrow>
          Inr \<lparr>job_id = uuid, user_id = uid, tier = tier_name, project_schema = schema,
               status = QUEUED, priority = p, created_at = now,
               started_at = None, completed_at = None, error_message = None,
               result_url = None, queue_position = None, estimated_start = None,
               worker_id = None\<rparr>)"

section \<open>Observations on a store\<close>

text \<open>
  The members of a sorted set and the elements of a list as the commands see them: a
  missing key is the empty set or list.
\<close>

definition zset_at :: "store \<Rightarrow> string \<Rightarrow> (string \<times> real) list" where
  "zset_at s k = (case kv s k of Some (RZSet zs) \<Rightarrow> zs | _ \<Rightarrow> [])"

definition list_at :: "store \<Rightarrow> string \<Rightarrow> string list" where
  "list_at s k = (case kv s k of Some (RList xs) \<Rightarrow> xs | _ \<Rightarrow> [])"

definition hash_at :: "store \<Rightarrow> string \<Rightarrow> string \<Rightarrow> string option" where
  "hash_at s k = (case kv s k of Some (RHash h) \<Rightarrow> h | _ \<Rightarrow> Map.empty)"



section \<open>A library instance and sample stores\<close>

text \<open>
  An instance of the library in which an instant is represented by its ISO-8601 text and
  a schema document by its JSON text, so that rendering is the identity and parsing
  accepts every non-empty text. \<^verbatim>\<open>str(datetime)\<close> puts a space for the \<^verbatim>\<open>T\<close>, the month
  is the first seven characters, and adding minutes is not computed (the estimate is not
  part of any property below).
\<close>

definition text_lib :: "(string, string) pylib" where
  "text_lib =
     \<lparr>isoformat = (\<lambda>d. d),
      fromisoformat = (\<lambda>t. if t = [] then None else Some t),
      str_datetime = map (\<lambda>c. if c = CHR ''T'' then CHR '' '' else c),
      strftime_ym = take 7,
      add_minutes = (\<lambda>d m. d),
      json_dumps = Some,
      json_loads = (\<lambda>t. if t = [] then None else Some t)\<rparr>"

definition clock_a :: "string submit_clock" where
  "clock_a = \<lparr>time_time = 1700000000, now_limit = ''2023-11-14T22:13:20'',
              now_month = ''2023-11-14T22:13:20'', now_estimate = ''2023-11-14T22:13:20''\<rparr>"

definition clock_b :: "string submit_clock" where
  "clock_b = \<lparr>time_time = 1700000600, now_limit = ''2023-11-14T22:23:20'',
              now_month = ''2023-11-14T22:23:20'', now_estimate = ''2023-11-14T22:23:20''\<rparr>"

text \<open>The job \<^verbatim>\<open>create_project\<close> builds for a free-tier user, and a second one of the same user.\<close>

definition job_a :: "(string, string) ProjectJob" where
  "job_a =
     \<lparr>job_id = ''job-a'', user_id = ''u1'', tier = ''free'', project_schema = ''{}'',
      status = QUEUED, priority = 3, created_at = ''2023-11-14T22:13:20'',
      started_at = None, completed_at = None, error_message = None, result_url = None,
      queue_position = None, estimated_start = None, worker_id = None\<rparr>"

definition job_b :: "(string, string) ProjectJob" where
  "job_b =
     \<lparr>job_id = ''job-b'', user_id = ''u1'', tier = ''free'', project_schema = ''{}'',
      status = QUEUED, priority = 3, created_at = ''2023-11-14T22:23:20'',
      started_at = None, completed_at = None, error_message = None, result_url = None,
      queue_position = None, estimated_start = None, worker_id = None\<rparr>"


text \<open>
  The hash of the job \<open>job-a\<close> of user \<open>u1\<close> at the stages of its life: the fields that
  change are the parameters.
\<close>

definition sample_hash ::
  "string \<Rightarrow> string \<Rightarrow> string \<Rightarrow> string \<Rightarrow> string \<Rightarrow> string \<Rightarrow> string \<Rightarrow> string option" where
  "sample_hash v_status v_started v_completed v_error v_url v_worker =
     map_of
       [(''job_id'', ''job-a''), (''user_id'', ''u1''), (''tier'', ''free''),
        (''project_schema'', ''{}''), (''status'', v_status), (''priority'', ''3''),
        (''created_at'', ''2023-11-14T22:13:20''), (''started_at'', v_started),
        (''completed_at'', v_completed), (''error_message'', v_error), (''result_url'', v_url),
        (''queue_position'', ''None''), (''estimated_start'', ''None''),
        (''worker_id'', v_worker)]"

definition response_a :: submit_response where
  "response_a =
     \<lparr>r_job_id = ''job-a'', r_status = ''queued'', r_queue_position = 1,
      r_estimated_start = ''2023-11-14T22:13:20'', r_estimated_wait_minutes = 10\<rparr>"


text \<open>
  The stores reached from the empty one by submitting \<open>job_a\<close>, claiming it, and then
  completing it once and twice, or failing it.
\<close>

definition log_submitted :: "rcommand list" where
  "log_submitted =
     [ZADD QUEUE_PENDING ''job-a'' 1703000000, HSET (job_key ''job-a''),
      INCR ''user:u1:jobs:2023-11'', EXPIRE ''user:u1:jobs:2023-11'' 2592000]"



definition store_submitted :: store where
  "store_submitted =
     \<lparr>kv = [QUEUE_PENDING \<mapsto> RZSet [(''job-a'', 1703000000)],
             job_key ''job-a'' \<mapsto>
               RHash (sample_hash ''queued'' [] [] ''None'' ''None'' ''None''),
             ''user:u1:jobs:2023-11'' \<mapsto> RString ''1''],
      ttl = [''user:u1:jobs:2023-11'' \<mapsto> 2592000],
      oplog = log_submitted\<rparr>"





text \<open>
  A store with three jobs in flight and one pending, and a store whose completed and
  failed lists hold jobs of earlier days.
\<close>

definition store_busy :: store where
  "store_busy =
     \<lparr>kv = [QUEUE_PROCESSING \<mapsto> RList [''job-3'', ''job-2'', ''job-1''],
             QUEUE_PENDING \<mapsto> RZSet [(''job-4'', 1703000000)]],
      ttl = Map.empty, oplog = []\<rparr>"

definition store_history :: store where
  "store_history =
     \<lparr>kv = [QUEUE_COMPLETED \<mapsto> RList [''job-9'', ''job-8''],
             QUEUE_FAILED \<mapsto> RList [''job-7''],
             job_key ''job-9'' \<mapsto> RHash [''job_id'' \<mapsto> ''job-9'', ''status'' \<mapsto> ''completed'',
                                         ''completed_at'' \<mapsto> ''2023-11-13T09:00:00''],
             job_key ''job-8'' \<mapsto> RHash [''job_id'' \<mapsto> ''job-8'', ''status'' \<mapsto> ''completed'',
                                         ''completed_at'' \<mapsto> ''2023-10-02T09:00:00''],
             job_key ''job-7'' \<mapsto> RHash [''job_id'' \<mapsto> ''job-7'', ''status'' \<mapsto> ''failed'',
                                         ''completed_at'' \<mapsto> ''2023-11-01T09:00:00'']],
      ttl = Map.empty, oplog = []\<rparr>"

text \<open>The statistics the queue manager reports for \<open>store_history\<close>.\<close>

definition stats_history :: queue_stats where
  "stats_history =
     \<lparr>pending = 0, processing = 0, completed_today = 2, failed_today = 1,
      avg_processing_time_minutes = 12.5, estimated_wait_minutes = 0\<rparr>"

section \<open>The integer conversions\<close>















section \<open>Facts about the store commands\<close>

lemmas monad_defs = return_val_def raise_exc_def lift_result_def

lemmas key_defs = QUEUE_PENDING_def QUEUE_PROCESSING_def QUEUE_COMPLETED_def QUEUE_FAILED_def
  job_key_def timeout_key_def month_key_def

text \<open>A sequence returns exactly when its first part returns and the rest returns from there.\<close>

lemma andthen_Inr:
  "(andthen m f s = (Inr y, s')) = (\<exists>x s1. m s = (Inr x, s1) \<and> f x s1 = (Inr y, s'))"
  by (auto simp: andthen_def split: prod.splits sum.splits)

lemma andthen_step: "m s = (Inr x, s1) \<Longrightarrow> andthen m f s = f x s1"
  by (simp add: andthen_def)

lemma andthen_raise: "m s = (Inl e, s1) \<Longrightarrow> andthen m f s = (Inl e, s1)"
  by (simp add: andthen_def)



lemma or_raise_Inr: "(or_raise e v = Inr x) = (v = Some x)"
  by (simp add: or_raise_def split: option.splits)

text \<open>The reading commands leave the store as it is.\<close>

lemma redis_llen_Inr: "redis_llen k s = (Inr n, s1) \<Longrightarrow> s1 = s \<and> n = length (list_at s k)"
  by (auto simp: redis_llen_def list_at_def split: option.splits rvalue.splits)

lemma redis_zcard_Inr: "redis_zcard k s = (Inr n, s1) \<Longrightarrow> s1 = s \<and> n = length (zset_at s k)"
  by (auto simp: redis_zcard_def zset_at_def split: option.splits rvalue.splits)


lemma redis_zrank_Inr: "redis_zrank k m s = (Inr r, s1) \<Longrightarrow> s1 = s"
  by (auto simp: redis_zrank_def split: option.splits rvalue.splits)


lemma redis_get_Inr: "redis_get k s = (Inr v, s1) \<Longrightarrow> s1 = s"
  by (auto simp: redis_get_def split: option.splits rvalue.splits)



lemma redis_zadd_Inr:
  "redis_zadd k m sc s = (Inr u, s1) \<Longrightarrow>
   kv s1 = (kv s)(k \<mapsto> RZSet ((m, sc) # filter (\<lambda>e. fst e \<noteq> m) (zset_at s k))) \<and>
   oplog s1 = oplog s @ [ZADD k m sc]"
  by (auto simp: redis_zadd_def zset_at_def set_key_def split: option.splits rvalue.splits)


lemma redis_hset_Inr:
  "redis_hset k mapping s = (Inr u, s1) \<Longrightarrow>
   kv s1 = (kv s)(k \<mapsto> RHash (hash_at s k ++ mapping)) \<and> oplog s1 = oplog s @ [HSET k]"
  by (auto simp: redis_hset_def hash_at_def set_key_def split: option.splits rvalue.splits)

lemma redis_incr_Inr:
  "redis_incr k s = (Inr n, s1) \<Longrightarrow>
   kv s1 = (kv s)(k \<mapsto> RString (py_str_int n)) \<and> oplog s1 = oplog s @ [INCR k]"
  by (auto simp: redis_incr_def set_key_def split: option.splits rvalue.splits if_splits)

lemma redis_expire_Inr:
  "redis_expire k n s = (Inr b, s1) \<Longrightarrow> kv s1 = kv s \<and> oplog s1 = oplog s @ [EXPIRE k n]"
  by (auto simp: redis_expire_def log_only_def split: option.splits)


text \<open>The helpers of the queue manager that only read.\<close>

lemma check_user_limit_Inr: "check_user_limit L now uid t s = (Inr b, s1) \<Longrightarrow> s1 = s"
  by (auto simp: check_user_limit_def andthen_Inr monad_defs
      split: option.splits if_splits dest!: redis_get_Inr)

lemma get_queue_position_Inr: "get_queue_position j s = (Inr p, s1) \<Longrightarrow> s1 = s"
  by (auto simp: get_queue_position_def andthen_Inr monad_defs dest!: redis_zrank_Inr)




section \<open>The sample run\<close>

text \<open>
  The sample stores are the ones the operations reach: each lemma evaluates one call on
  the store before it.
\<close>

lemmas write_defs = set_key_def del_key_def log_only_def

lemmas command_defs = redis_llen_def redis_lpush_def redis_lrem_def redis_zadd_def
  redis_zcard_def redis_zrange_0_0_def redis_zrem_def redis_zrank_def redis_hset_def
  redis_hgetall_def redis_get_def redis_incr_def redis_expire_def redis_setex_def

lemmas run_defs = andthen_def monad_defs command_defs write_defs key_defs zlt_def
  status_value_def MAX_CONCURRENT_JOBS_def MAX_QUEUE_SIZE_def JOB_TIMEOUT_SECONDS_def

lemmas text_defs = py_str_int_def dec.simps digit_char_def str_opt_str_def str_opt_int_def
  str_opt_datetime_def


lemma upper_free: "upper ''free'' = ''FREE''"
  by (simp add: upper_def upper_char_def)

lemma serialize_job_a:
  "serialize_job text_lib job_a = Inr (sample_hash ''queued'' [] [] ''None'' ''None'' ''None'')"
  by (simp add: serialize_job_def text_lib_def job_a_def text_defs status_value_def
      sample_hash_def)

lemma estimate_text_lib: "isoformat text_lib (estimate_start_time text_lib d n) = d"
  by (simp add: estimate_start_time_def text_lib_def)

lemma submit_job_a:
  "submit_job text_lib clock_a job_a empty_store = (Inr response_a, store_submitted)"
proof -
  have c: "check_user_limit text_lib ''2023-11-14T22:13:20'' ''u1'' ''free''
             \<lparr>kv = Map.empty, ttl = Map.empty, oplog = []\<rparr> =
           (Inr True, \<lparr>kv = Map.empty, ttl = Map.empty, oplog = []\<rparr>)"
    by (simp add: check_user_limit_def upper_free TierLimits_def andthen_def monad_defs
        redis_get_def)
  have i: "job_id job_a = ''job-a''" "user_id job_a = ''u1''" "priority job_a = 3"
    "tier job_a = ''free''"
    by (simp_all add: job_a_def)
  have m: "month_key text_lib (now_month clock_a) ''u1'' = ''user:u1:jobs:2023-11''"
    by (simp add: month_key_def text_lib_def clock_a_def)
  have t: "time_time clock_a = 1700000000" "now_limit clock_a = ''2023-11-14T22:13:20''"
    "now_estimate clock_a = ''2023-11-14T22:13:20''"
    by (simp_all add: clock_a_def)
  show ?thesis
    unfolding submit_job_def i m t
    by (simp add: run_defs c serialize_job_a estimate_text_lib get_queue_position_def
        empty_store_def job_score_def response_a_def store_submitted_def log_submitted_def
        py_str_int_def dec.simps digit_char_def)
qed












section \<open>Claiming the next job\<close>





section \<open>The score of a pending job\<close>




section \<open>Completing a job\<close>




section \<open>Failing a job\<close>




section \<open>The queue-size check\<close>

text \<open>
  Claim C5. \<^verbatim>\<open>submit_job\<close> measures the pending queue with \<^verbatim>\<open>llen\<close>, a list command, but
  the pending queue is a sorted set (written by \<^verbatim>\<open>zadd\<close>, read by \<^verbatim>\<open>zcard\<close> everywhere
  else). So whenever the pending key holds a sorted set, whatever its cardinality, the
  submission raises the WRONGTYPE error of Redis and changes nothing: it is not admitted
  below the cap, and the rejection at the cap is not the queue-full exception.
\<close>

theorem submit_job_while_pending:
  "kv s QUEUE_PENDING = Some (RZSet zs) \<Longrightarrow> submit_job L clk job s = (Inl WRONGTYPE, s)"
  by (simp add: submit_job_def andthen_def redis_llen_def)

lemma kv_store_submitted_pending:
  "kv store_submitted QUEUE_PENDING = Some (RZSet [(''job-a'', 1703000000)])"
  by (simp add: store_submitted_def key_defs)

theorem submit_job_while_pending_witness:
  "kv store_submitted QUEUE_PENDING = Some (RZSet [(''job-a'', 1703000000)]) \<and>
   submit_job text_lib clock_b job_b store_submitted = (Inl WRONGTYPE, store_submitted)"
  using kv_store_submitted_pending
    submit_job_while_pending [OF kv_store_submitted_pending, of text_lib clock_b job_b]
  by (rule conjI)

section \<open>The monthly quota\<close>









section \<open>The concurrency cap\<close>

text \<open>
  Claim C7. When the in-flight list \<^verbatim>\<open>projects:processing\<close> holds at least
  \<^verbatim>\<open>MAX_CONCURRENT_JOBS\<close> entries, \<^verbatim>\<open>get_next_job\<close> returns None and leaves the whole
  store as it was, the pending set and the in-flight list included, whatever is pending.
\<close>

theorem get_next_job_at_capacity:
  "kv s QUEUE_PROCESSING = Some (RList xs) \<Longrightarrow> MAX_CONCURRENT_JOBS \<le> length xs \<Longrightarrow>
   get_next_job L now worker s = (Inr None, s)"
  by (simp add: get_next_job_def andthen_def redis_llen_def return_val_def)

lemma kv_store_busy_processing:
  "kv store_busy QUEUE_PROCESSING = Some (RList [''job-3'', ''job-2'', ''job-1''])"
  by (simp add: store_busy_def QUEUE_PROCESSING_def QUEUE_PENDING_def)

theorem get_next_job_at_capacity_witness:
  "kv store_busy QUEUE_PROCESSING = Some (RList [''job-3'', ''job-2'', ''job-1'']) \<and>
   MAX_CONCURRENT_JOBS \<le> length [''job-3'', ''job-2'', ''job-1''] \<and>
   zset_at store_busy QUEUE_PENDING = [(''job-4'', 1703000000)] \<and>
   get_next_job text_lib ''2023-12-19T15:33:20'' ''worker-4'' store_busy = (Inr None, store_busy)"
proof -
  have l: "MAX_CONCURRENT_JOBS \<le> length [''job-3'', ''job-2'', ''job-1'']"
    by (simp add: MAX_CONCURRENT_JOBS_def)
  have z: "zset_at store_busy QUEUE_PENDING = [(''job-4'', 1703000000)]"
    by (simp add: zset_at_def store_busy_def QUEUE_PROCESSING_def QUEUE_PENDING_def)
  show ?thesis
    using kv_store_busy_processing l z
      get_next_job_at_capacity [OF kv_store_busy_processing l, of text_lib
        "''2023-12-19T15:33:20''" "''worker-4''"]
    by simp
qed

section \<open>The writes of a submission\<close>

text \<open>
  Claim C8, amended. A \<^verbatim>\<open>submit_job\<close> that returns has sent four writing commands, in this
  order: the \<^verbatim>\<open>zadd\<close> into the pending set first, then the \<^verbatim>\<open>hset\<close> of the job hash,
  then the \<^verbatim>\<open>incr\<close> of the monthly counter and the \<^verbatim>\<open>expire\<close> of that counter last. The
  sorted-set write is the first mutation, not the last.
\<close>

theorem submit_job_write_order:
  "submit_job L clk job s = (Inr r, s') \<Longrightarrow>
   oplog s' = oplog s @
     [ZADD QUEUE_PENDING (job_id job) (job_score (priority job) (time_time clk)),
      HSET (job_key (job_id job)),
      INCR (month_key L (now_month clk) (user_id job)),
      EXPIRE (month_key L (now_month clk) (user_id job)) 2592000]"
  by (auto simp: submit_job_def andthen_Inr monad_defs split: if_splits
      dest!: redis_llen_Inr check_user_limit_Inr redis_zadd_Inr redis_hset_Inr redis_incr_Inr
        redis_expire_Inr get_queue_position_Inr)

theorem submit_job_write_order_witness:
  "submit_job text_lib clock_a job_a empty_store = (Inr response_a, store_submitted) \<and>
   oplog store_submitted = oplog empty_store @
     [ZADD QUEUE_PENDING (job_id job_a) (job_score (priority job_a) (time_time clock_a)),
      HSET (job_key (job_id job_a)),
      INCR (month_key text_lib (now_month clock_a) (user_id job_a)),
      EXPIRE (month_key text_lib (now_month clock_a) (user_id job_a)) 2592000]"
  using submit_job_a submit_job_write_order [OF submit_job_a] by (rule conjI)

text \<open>
  The order the claim gives (hash, counter, sorted set last) is not the order of the log
  of a successful submission: its first entry is the \<^verbatim>\<open>zadd\<close>.
\<close>

theorem submit_job_write_order_counterexample:
  "fst (submit_job text_lib clock_a job_a empty_store) = Inr response_a \<and>
   oplog (snd (submit_job text_lib clock_a job_a empty_store)) =
     [ZADD ''projects:pending'' ''job-a'' 1703000000, HSET ''job:job-a'',
      INCR ''user:u1:jobs:2023-11'', EXPIRE ''user:u1:jobs:2023-11'' 2592000]"
  by (simp add: submit_job_a store_submitted_def log_submitted_def key_defs)

section \<open>The daily statistics\<close>

text \<open>
  Claim C9. The values \<^verbatim>\<open>completed_today\<close> and \<^verbatim>\<open>failed_today\<close> of \<^verbatim>\<open>get_queue_stats\<close> are
  the lengths of the lists \<^verbatim>\<open>projects:completed\<close> and \<^verbatim>\<open>projects:failed\<close>: no date and no
  daily counter enters, so jobs of earlier days are counted as well.
\<close>

theorem queue_stats_count_lists:
  "get_queue_stats s = (Inr st, s') \<Longrightarrow>
   completed_today st = length (list_at s QUEUE_COMPLETED) \<and>
   failed_today st = length (list_at s QUEUE_FAILED)"
  by (auto simp: get_queue_stats_def get_completed_today_def get_failed_today_def
      estimate_wait_time_def andthen_Inr monad_defs
      dest!: redis_llen_Inr redis_zcard_Inr)

lemma queue_stats_history: "get_queue_stats store_history = (Inr stats_history, store_history)"
  by (simp add: get_queue_stats_def get_completed_today_def get_failed_today_def
      estimate_wait_time_def get_avg_processing_time_def run_defs store_history_def
      stats_history_def)

theorem queue_stats_count_lists_witness:
  "get_queue_stats store_history = (Inr stats_history, store_history) \<and>
   completed_today stats_history = length (list_at store_history QUEUE_COMPLETED) \<and>
   failed_today stats_history = length (list_at store_history QUEUE_FAILED) \<and>
   completed_today stats_history = 2 \<and>
   hash_at store_history (job_key ''job-9'') ''completed_at'' = Some ''2023-11-13T09:00:00'' \<and>
   hash_at store_history (job_key ''job-8'') ''completed_at'' = Some ''2023-10-02T09:00:00''"
proof -
  have "completed_today stats_history = 2"
    by (simp add: stats_history_def)
  moreover have
    "hash_at store_history (job_key ''job-9'') ''completed_at'' = Some ''2023-11-13T09:00:00''"
    "hash_at store_history (job_key ''job-8'') ''completed_at'' = Some ''2023-10-02T09:00:00''"
    by (simp_all add: hash_at_def store_history_def key_defs)
  ultimately show ?thesis
    using queue_stats_history queue_stats_count_lists [OF queue_stats_history] by simp
qed

section \<open>The codec round trip\<close>




end
